theory Spec2Isabelle
  imports Main "HOL-Library.AList"
begin

section \<open>FilesAssistant-MCP: sandboxed file tools behind a JSON-RPC front-end\<close>

text \<open>
  A shallow embedding of \<^verbatim>\<open>tools.js\<close> and \<^verbatim>\<open>mcp-server.js\<close>. Values that
  travel through the protocol are JavaScript values restricted to what \<^verbatim>\<open>JSON.parse\<close>
  can produce, plus \<^verbatim>\<open>undefined\<close>. Exceptions are values of type \<open>exn\<close>; a function
  that can throw returns \<open>exn + 'a\<close>, and one that also touches the file system returns
  that outcome paired with the file system it leaves behind.
\<close>

subsection \<open>JavaScript values and exceptions\<close>

datatype jsval =
    Undefined
  | Null
  | Bool bool
  | Num int
  | Str string
  | Arr "jsval list"
  | Obj "(string \<times> jsval) list"

text \<open>Numbers are kept to the integers; no operation of the program computes with them.
  The members of an object are listed with distinct keys.\<close>

datatype exn = Error string | TypeError string | SyntaxError string | SystemError string

fun message :: "exn \<Rightarrow> string" where
  "message (Error m) = m"
| "message (TypeError m) = m"
| "message (SyntaxError m) = m"
| "message (SystemError m) = m"

text \<open>
  Property read \<^verbatim>\<open>v.k\<close> and destructuring \<^verbatim>\<open>const {k} = v\<close>: both throw on
  \<^verbatim>\<open>undefined\<close> and \<^verbatim>\<open>null\<close>; on every other value a key that is not an own
  property reads as \<^verbatim>\<open>undefined\<close>. (None of the keys the program reads is inherited
  by objects, arrays, numbers or booleans. Strings inherit \<^verbatim>\<open>search\<close> and
  \<^verbatim>\<open>replace\<close>; the one reader of these keys, \<^verbatim>\<open>replace_text\<close>, fails on the
  missing \<^verbatim>\<open>filename\<close> before it uses them.)
\<close>

fun own :: "jsval \<Rightarrow> string \<Rightarrow> jsval" where
  "own (Obj kvs) k = (case map_of kvs k of Some v \<Rightarrow> v | None \<Rightarrow> Undefined)"
| "own _ k = Undefined"

fun nullish :: "jsval \<Rightarrow> bool" where
  "nullish Undefined = True"
| "nullish Null = True"
| "nullish _ = False"

definition read_prop :: "jsval \<Rightarrow> string \<Rightarrow> exn + jsval" where
  "read_prop v k =
     (if nullish v then Inl (TypeError (''Cannot read properties of undefined or null (reading '' @ k @ '')''))
      else Inr (own v k))"

fun truthy :: "jsval \<Rightarrow> bool" where
  "truthy Undefined = False"
| "truthy Null = False"
| "truthy (Bool b) = b"
| "truthy (Num n) = (n \<noteq> 0)"
| "truthy (Str s) = (s \<noteq> [])"
| "truthy (Arr _) = True"
| "truthy (Obj _) = True"

subsection \<open>Strings\<close>

definition startsWith :: "string \<Rightarrow> string \<Rightarrow> bool" where
  "startsWith s p = (take (length p) s = p)"

fun str_includes :: "string \<Rightarrow> string \<Rightarrow> bool" where
  "str_includes [] q = (q = [])"
| "str_includes (c # cs) q = (startsWith (c # cs) q \<or> str_includes cs q)"

fun split_on :: "char \<Rightarrow> string \<Rightarrow> string list" where
  "split_on d [] = [[]]"
| "split_on d (c # cs) =
     (if c = d then [] # split_on d cs
      else (case split_on d cs of [] \<Rightarrow> [[c]] | s # ss \<Rightarrow> (c # s) # ss))"

fun join :: "string \<Rightarrow> string list \<Rightarrow> string" where
  "join d [] = []"
| "join d [s] = s"
| "join d (s # t # ss) = s @ d @ join d (t # ss)"

definition digit :: "nat \<Rightarrow> char" where
  "digit n = char_of (48 + n)"

fun show_nat :: "nat \<Rightarrow> string" where
  "show_nat n = (if n < 10 then [digit n] else show_nat (n div 10) @ [digit (n mod 10)])"

declare show_nat.simps [simp del]

definition show_int :: "int \<Rightarrow> string" where
  "show_int i = (if i < 0 then CHR ''-'' # show_nat (nat (- i)) else show_nat (nat i))"

text \<open>The abstract operation \<^verbatim>\<open>ToString\<close>, applied by \<^verbatim>\<open>includes\<close>,
  \<^verbatim>\<open>startsWith\<close>, \<^verbatim>\<open>new RegExp\<close> and property keys to a non-string argument.\<close>

fun to_string :: "jsval \<Rightarrow> string" where
  "to_string Undefined = ''undefined''"
| "to_string Null = ''null''"
| "to_string (Bool b) = (if b then ''true'' else ''false'')"
| "to_string (Num n) = show_int n"
| "to_string (Str s) = s"
| "to_string (Arr vs) = join '','' (map (\<lambda>v. if nullish v then [] else to_string v) vs)"
| "to_string (Obj kvs) = ''[object Object]''"

subsection \<open>POSIX paths (the \<^verbatim>\<open>path\<close> module)\<close>

text \<open>
  The functions of Node's \<^verbatim>\<open>path\<close> module that the tools call, on POSIX, given by
  what they do to the list of components between the slashes: empty components and
  \<^verbatim>\<open>.\<close> are dropped, \<^verbatim>\<open>..\<close> removes the component before it, and at the root
  of an absolute path it is dropped.
\<close>

definition norm_step :: "bool \<Rightarrow> string list \<Rightarrow> string \<Rightarrow> string list" where
  "norm_step allowAboveRoot res seg =
     (if seg = [] \<or> seg = ''.'' then res
      else if seg = ''..'' then
        (if res \<noteq> [] \<and> last res \<noteq> ''..'' then butlast res
         else if allowAboveRoot then res @ [''..''] else res)
      else res @ [seg])"

definition segments :: "bool \<Rightarrow> string \<Rightarrow> string list" where
  "segments allowAboveRoot p = foldl (norm_step allowAboveRoot) [] (split_on CHR ''/'' p)"

definition normalizeString :: "string \<Rightarrow> bool \<Rightarrow> string" where
  "normalizeString p allowAboveRoot = join ''/'' (segments allowAboveRoot p)"

definition isAbsolute :: "string \<Rightarrow> bool" where
  "isAbsolute p = (p \<noteq> [] \<and> hd p = CHR ''/'')"

text \<open>\<^verbatim>\<open>path.resolve(...args)\<close>: the arguments are taken from the right until an
  absolute one has been seen, then the current directory; empty arguments are skipped.\<close>

fun resolve_loop :: "string list \<Rightarrow> string \<Rightarrow> string" where
  "resolve_loop [] acc = acc"
| "resolve_loop (p # ps) acc =
     (if p = [] then resolve_loop ps acc
      else if isAbsolute p then p @ ''/'' @ acc
      else resolve_loop ps (p @ ''/'' @ acc))"

definition path_resolve :: "string \<Rightarrow> string list \<Rightarrow> string" where
  "path_resolve cwd args =
     (let resolvedPath = resolve_loop (rev (cwd # args)) [];
          resolvedAbsolute = isAbsolute resolvedPath;
          n = normalizeString resolvedPath (\<not> resolvedAbsolute)
      in if resolvedAbsolute then CHR ''/'' # n
         else if n \<noteq> [] then n else ''.'')"

definition path_normalize :: "string \<Rightarrow> string" where
  "path_normalize p =
     (if p = [] then ''.''
      else
        let isAbs = isAbsolute p;
            trailingSeparator = (last p = CHR ''/'');
            n = normalizeString p (\<not> isAbs);
            n1 = (if n = [] then (if isAbs then [] else if trailingSeparator then ''./'' else ''.'')
                  else if trailingSeparator then n @ ''/'' else n)
        in if isAbs then CHR ''/'' # n1 else n1)"

definition path_join :: "string list \<Rightarrow> string" where
  "path_join args =
     (let parts = filter (\<lambda>a. a \<noteq> []) args
      in if parts = [] then ''.'' else path_normalize (join ''/'' parts))"

definition path_basename :: "string \<Rightarrow> string" where
  "path_basename p =
     (let parts = filter (\<lambda>s. s \<noteq> []) (split_on CHR ''/'' p)
      in if parts = [] then [] else last parts)"

text \<open>\<^verbatim>\<open>path.extname\<close>: from the last dot of the last path component, unless there is
  no dot, the dot is the component's first character, or the component is \<^verbatim>\<open>..\<close>.\<close>

definition path_extname :: "string \<Rightarrow> string" where
  "path_extname p =
     (let b = path_basename p;
          ext = rev (takeWhile (\<lambda>c. c \<noteq> CHR ''.'') (rev b))
      in if CHR ''.'' \<notin> set b then []
         else if length ext + 1 = length b then []
         else if b = ''..'' then []
         else CHR ''.'' # ext)"

fun strip_common :: "string list \<Rightarrow> string list \<Rightarrow> string list \<times> string list" where
  "strip_common (a # as) (b # bs) = (if a = b then strip_common as bs else (a # as, b # bs))"
| "strip_common as bs = (as, bs)"

definition path_relative :: "string \<Rightarrow> string \<Rightarrow> string \<Rightarrow> string" where
  "path_relative cwd from to =
     (let (f, t) = strip_common (segments False (path_resolve cwd [from]))
                                (segments False (path_resolve cwd [to]))
      in join ''/'' (map (\<lambda>_. ''..'') f @ t))"

subsection \<open>Configuration and runtime\<close>

text \<open>
  \<^verbatim>\<open>config.json\<close>, read once. The two string settings are absent or strings;
  \<^verbatim>\<open>ALLOW_DELETE\<close> is kept as the parsed value because \<^verbatim>\<open>tools.js\<close> tests it with
  \<^verbatim>\<open>=== true\<close> and \<^verbatim>\<open>mcp-server.js\<close> tests its truthiness.
\<close>

record config =
  MCP_SERVER_AUTH_TOKEN :: "string option"
  WORKING_DIR :: "string option"
  ALLOW_DELETE :: jsval

text \<open>
  What the program takes from Node.js and its libraries without the repository fixing it:
  the current directory, the clock, the members every object inherits from
  \<^verbatim>\<open>Object.prototype\<close> (whether a name is one, and what calling it on the tool table
  gives), and the regular-expression engine on patterns that are not plain text.
\<close>

record runtime =
  cwd :: string
  now :: string
  proto_member :: "string \<Rightarrow> bool"
  proto_call :: "string \<Rightarrow> jsval \<Rightarrow> exn + jsval"
  regexp_match :: "string \<Rightarrow> string \<Rightarrow> exn + string list"
  regexp_replace :: "string \<Rightarrow> string \<Rightarrow> string \<Rightarrow> exn + string"

definition workingDir :: "config \<Rightarrow> runtime \<Rightarrow> string" where
  "workingDir cfg rt =
     (case WORKING_DIR cfg of
        Some d \<Rightarrow> if d \<noteq> [] then d else cwd rt
      | None \<Rightarrow> cwd rt)"

definition allowDelete :: "config \<Rightarrow> bool" where
  "allowDelete cfg = (ALLOW_DELETE cfg = Bool True)"

definition authToken :: "config \<Rightarrow> string" where
  "authToken cfg =
     (case MCP_SERVER_AUTH_TOKEN cfg of
        Some t \<Rightarrow> if t \<noteq> [] then t else ''Super8Duper8Secret8T0ken''
      | None \<Rightarrow> ''Super8Duper8Secret8T0ken'')"

subsection \<open>The path sandbox\<close>

definition ensureSafePath :: "config \<Rightarrow> runtime \<Rightarrow> jsval \<Rightarrow> exn + string" where
  "ensureSafePath cfg rt filename =
     (case filename of
        Str f \<Rightarrow>
          (let fullPath = path_resolve (cwd rt) [workingDir cfg rt, f]
           in if \<not> startsWith fullPath (path_resolve (cwd rt) [workingDir cfg rt])
              then Inl (Error ''Attempt to access path outside WORKING_DIR'')
              else Inr fullPath)
      | _ \<Rightarrow> Inl (TypeError ''The paths[1] argument must be of type string''))"

subsection \<open>The file system\<close>

text \<open>
  The file system is a table from absolute, normalised paths to nodes, in the order in
  which a directory scan meets them. A file carries its text and its modification time as
  \<^verbatim>\<open>stats.mtime.toISOString()\<close> prints it (UTC, \<^verbatim>\<open>YYYY-MM-DDTHH:mm:ss.sssZ\<close>).
  Permissions and symbolic links are not part of the model.
\<close>

datatype node = File (text_of: string) (mtime_of: string) | Dir

type_synonym filesystem = "(string \<times> node) list"

definition existsSync :: "filesystem \<Rightarrow> string \<Rightarrow> bool" where
  "existsSync fs p = (map_of fs p \<noteq> None)"

definition readFileSync :: "filesystem \<Rightarrow> string \<Rightarrow> exn + string" where
  "readFileSync fs p =
     (case map_of fs p of
        None \<Rightarrow> Inl (SystemError ''ENOENT: no such file or directory'')
      | Some Dir \<Rightarrow> Inl (SystemError ''EISDIR: illegal operation on a directory'')
      | Some (File c m) \<Rightarrow> Inr c)"

definition statSync_mtime :: "filesystem \<Rightarrow> string \<Rightarrow> exn + string" where
  "statSync_mtime fs p =
     (case map_of fs p of
        None \<Rightarrow> Inl (SystemError ''ENOENT: no such file or directory'')
      | Some Dir \<Rightarrow> Inl (SystemError ''not a regular file'')
      | Some (File c m) \<Rightarrow> Inr m)"

text \<open>The directory an absolute path lies in.\<close>

definition parent_dir :: "string \<Rightarrow> string" where
  "parent_dir p = CHR ''/'' # join ''/'' (butlast (segments False p))"

definition writeFileSync :: "runtime \<Rightarrow> filesystem \<Rightarrow> string \<Rightarrow> string \<Rightarrow> (exn + unit) \<times> filesystem" where
  "writeFileSync rt fs p c =
     (case map_of fs p of
        Some Dir \<Rightarrow> (Inl (SystemError ''EISDIR: illegal operation on a directory''), fs)
      | Some (File c0 m) \<Rightarrow> (Inr (), AList.update p (File c (now rt)) fs)
      | None \<Rightarrow>
          (if map_of fs (parent_dir p) = Some Dir
           then (Inr (), AList.update p (File c (now rt)) fs)
           else (Inl (SystemError ''ENOENT: no such file or directory''), fs)))"

definition unlinkSync :: "filesystem \<Rightarrow> string \<Rightarrow> (exn + unit) \<times> filesystem" where
  "unlinkSync fs p =
     (case map_of fs p of
        None \<Rightarrow> (Inl (SystemError ''ENOENT: no such file or directory''), fs)
      | Some Dir \<Rightarrow> (Inl (SystemError ''EPERM: operation not permitted''), fs)
      | Some (File c m) \<Rightarrow> (Inr (), AList.delete p fs))"

text \<open>\<^verbatim>\<open>fs.mkdirSync(p, {recursive: true})\<close>: every missing directory on the way
  to \<open>p\<close> is created; a file in the way is an error.\<close>

fun mkdir_loop :: "string list \<Rightarrow> string \<Rightarrow> filesystem \<Rightarrow> (exn + unit) \<times> filesystem" where
  "mkdir_loop [] cur fs = (Inr (), fs)"
| "mkdir_loop (s # ss) cur fs =
     (let d = cur @ ''/'' @ s
      in case map_of fs d of
           Some (File c m) \<Rightarrow> (Inl (SystemError ''ENOTDIR: not a directory''), fs)
         | Some Dir \<Rightarrow> mkdir_loop ss d fs
         | None \<Rightarrow> mkdir_loop ss d (fs @ [(d, Dir)]))"

definition mkdirSync :: "filesystem \<Rightarrow> string \<Rightarrow> (exn + unit) \<times> filesystem" where
  "mkdirSync fs p = mkdir_loop (segments False p) [] fs"

text \<open>\<^verbatim>\<open>fs.renameSync\<close> of a regular file: the node moves with its text and its time
  and replaces a file already at the new path. The program renames files only (the scan
  is made with \<^verbatim>\<open>nodir\<close>); a directory as source is reported as an error here.\<close>

definition renameSync :: "filesystem \<Rightarrow> string \<Rightarrow> string \<Rightarrow> (exn + unit) \<times> filesystem" where
  "renameSync fs old new =
     (case map_of fs old of
        None \<Rightarrow> (Inl (SystemError ''ENOENT: no such file or directory''), fs)
      | Some Dir \<Rightarrow> (Inl (SystemError ''rename of a directory''), fs)
      | Some (File c m) \<Rightarrow>
          (if old = new then (Inr (), fs)
           else case map_of fs (parent_dir new) of
                  None \<Rightarrow> (Inl (SystemError ''ENOENT: no such file or directory''), fs)
                | Some (File c1 m1) \<Rightarrow> (Inl (SystemError ''ENOTDIR: not a directory''), fs)
                | Some Dir \<Rightarrow>
                    (if map_of fs new = Some Dir
                     then (Inl (SystemError ''EISDIR: illegal operation on a directory''), fs)
                     else (Inr (), AList.update new (File c m) (AList.delete old fs)))))"

text \<open>
  \<^verbatim>\<open>glob.sync(`${workingDir}/**/*`, { nodir: true })\<close>: the regular files below the
  working directory, at any depth. No \<^verbatim>\<open>dot\<close> option is passed, so a path with a
  component that starts with a dot below the working directory is not matched. The working
  directory is taken to be absolute, normalised and free of glob metacharacters; what is
  proved about the files a scan returns has this as a hypothesis.
\<close>

definition is_file :: "node \<Rightarrow> bool" where
  "is_file n = (case n of File c m \<Rightarrow> True | Dir \<Rightarrow> False)"

definition glob_match :: "string \<Rightarrow> string \<Rightarrow> bool" where
  "glob_match wd p =
     (let ws = segments False wd; ps = segments False p
      in length ws < length ps \<and> take (length ws) ps = ws \<and>
         list_all (\<lambda>s. \<not> startsWith s ''.'') (drop (length ws) ps))"

definition glob_sync :: "string \<Rightarrow> filesystem \<Rightarrow> string list" where
  "glob_sync wd fs = map fst (filter (\<lambda>(p, n). is_file n \<and> glob_match wd p) fs)"

subsection \<open>Regular expressions with the \<^verbatim>\<open>g\<close> flag\<close>

text \<open>
  A pattern without any of the characters \<^verbatim>\<open>\ ^ $ . | ? * + ( ) [ ] { }\<close> matches
  its own text and nothing else; the matches of a global scan are then the occurrences of
  that text from left to right, without overlap. Every other pattern (the empty one
  included), and every replacement text with a \<^verbatim>\<open>$\<close>, is handed to the runtime's
  engine, which may throw a \<^verbatim>\<open>SyntaxError\<close>.
\<close>

definition regexp_special :: string where
  "regexp_special = CHR 0x5C # ''^$.|?*+()[]{}''"

definition plain :: "string \<Rightarrow> bool" where
  "plain p = (p \<noteq> [] \<and> list_all (\<lambda>c. c \<notin> set regexp_special) p)"

function split_str :: "string \<Rightarrow> string \<Rightarrow> string list" where
  "split_str p [] = [[]]"
| "split_str p (c # cs) =
     (if p \<noteq> [] \<and> startsWith (c # cs) p then [] # split_str p (drop (length p) (c # cs))
      else (case split_str p cs of [] \<Rightarrow> [[c]] | s # ss \<Rightarrow> (c # s) # ss))"
  by pat_completeness auto
termination
  by (relation "measure (\<lambda>(p, s). length s)") auto

definition regexp_source :: "jsval \<Rightarrow> string" where
  "regexp_source v = (if v = Undefined then ''(?:)'' else to_string v)"

definition match_all :: "runtime \<Rightarrow> string \<Rightarrow> string \<Rightarrow> exn + string list" where
  "match_all rt src s =
     (if plain src then Inr (replicate (length (split_str src s) - 1) src)
      else regexp_match rt src s)"

definition replace_all :: "runtime \<Rightarrow> string \<Rightarrow> string \<Rightarrow> string \<Rightarrow> exn + string" where
  "replace_all rt src r s =
     (if plain src \<and> CHR ''$'' \<notin> set r then Inr (join r (split_str src s))
      else regexp_replace rt src r s)"

subsection \<open>\<^verbatim>\<open>JSON.stringify\<close>\<close>

definition hex_digit :: "nat \<Rightarrow> char" where
  "hex_digit n = (if n < 10 then char_of (48 + n) else char_of (87 + n))"

definition escape_char :: "char \<Rightarrow> string" where
  "escape_char c =
     (if c = CHR 0x22 then [CHR 0x5C, CHR 0x22]
      else if c = CHR 0x5C then [CHR 0x5C, CHR 0x5C]
      else if c = CHR 0x08 then [CHR 0x5C, CHR ''b'']
      else if c = CHR 0x09 then [CHR 0x5C, CHR ''t'']
      else if c = CHR 0x0A then [CHR 0x5C, CHR ''n'']
      else if c = CHR 0x0C then [CHR 0x5C, CHR ''f'']
      else if c = CHR 0x0D then [CHR 0x5C, CHR ''r'']
      else if (of_char c :: nat) < 32
        then CHR 0x5C # ''u00'' @ [hex_digit (of_char c div 16), hex_digit (of_char c mod 16)]
      else [c])"

definition quote :: "string \<Rightarrow> string" where
  "quote s = CHR 0x22 # concat (map escape_char s) @ [CHR 0x22]"

text \<open>The text \<^verbatim>\<open>JSON.stringify(v)\<close>; \<open>None\<close> is the result \<^verbatim>\<open>undefined\<close>.\<close>

fun JSON_stringify :: "jsval \<Rightarrow> string option" where
  "JSON_stringify Undefined = None"
| "JSON_stringify Null = Some ''null''"
| "JSON_stringify (Bool b) = Some (if b then ''true'' else ''false'')"
| "JSON_stringify (Num n) = Some (show_int n)"
| "JSON_stringify (Str s) = Some (quote s)"
| "JSON_stringify (Arr vs) =
     Some (''['' @ join '','' (map (\<lambda>v. case JSON_stringify v of None \<Rightarrow> ''null'' | Some t \<Rightarrow> t) vs) @ '']'')"
| "JSON_stringify (Obj kvs) =
     Some (''{'' @ join '',''
       (concat (map (\<lambda>kv. case JSON_stringify (snd kv) of None \<Rightarrow> [] | Some t \<Rightarrow> [quote (fst kv) @ '':'' @ t]) kvs))
       @ ''}'')"

text \<open>The JSON document that \<^verbatim>\<open>JSON.stringify(v)\<close> denotes, as the receiver parses
  it: members whose value is \<^verbatim>\<open>undefined\<close> are left out, and \<^verbatim>\<open>undefined\<close> in an
  array becomes \<^verbatim>\<open>null\<close>. Response bodies are kept in this form.\<close>

fun serialize :: "jsval \<Rightarrow> jsval" where
  "serialize (Arr vs) = Arr (map (\<lambda>v. if v = Undefined then Null else serialize v) vs)"
| "serialize (Obj kvs) =
     Obj (map (\<lambda>kv. (fst kv, serialize (snd kv))) (filter (\<lambda>kv. snd kv \<noteq> Undefined) kvs))"
| "serialize v = v"

subsection \<open>The tools (\<^verbatim>\<open>tools.js\<close>)\<close>

type_synonym 'a effect = "(exn + 'a) \<times> filesystem"

definition destructure_error :: exn where
  "destructure_error = TypeError ''Cannot destructure property of undefined or null''"

definition analyze_logs :: "config \<Rightarrow> runtime \<Rightarrow> filesystem \<Rightarrow> jsval \<Rightarrow> jsval effect" where
  "analyze_logs cfg rt fs args =
     (if nullish args then (Inl destructure_error, fs)
      else case ensureSafePath cfg rt (own args ''filename'') of
        Inl e \<Rightarrow> (Inl e, fs)
      | Inr filePath \<Rightarrow>
          (if \<not> existsSync fs filePath then (Inl (Error ''Log file not found''), fs)
           else (case readFileSync fs filePath of
              Inl e \<Rightarrow> (Inl e, fs)
            | Inr content \<Rightarrow>
                (case match_all rt (regexp_source (own args ''pattern'')) content of
                   Inl e \<Rightarrow> (Inl e, fs)
                 | Inr matches \<Rightarrow>
                     (Inr (Obj [(''matches'', Arr (map Str matches)),
                                (''count'', Num (int (length matches)))]), fs)))))"

fun filter_by_date :: "filesystem \<Rightarrow> string \<Rightarrow> string list \<Rightarrow> exn + string list" where
  "filter_by_date fs q [] = Inr []"
| "filter_by_date fs q (f # files) =
     (case statSync_mtime fs f of
        Inl e \<Rightarrow> Inl e
      | Inr m \<Rightarrow>
          (case filter_by_date fs q files of
             Inl e \<Rightarrow> Inl e
           | Inr rest \<Rightarrow> Inr (if startsWith m q then f # rest else rest)))"

definition search_files :: "config \<Rightarrow> runtime \<Rightarrow> filesystem \<Rightarrow> jsval \<Rightarrow> jsval effect" where
  "search_files cfg rt fs args =
     (if nullish args then (Inl destructure_error, fs)
      else
        let query = own args ''query'';
            by = (if own args ''by'' = Undefined then Str ''name'' else own args ''by'');
            files = glob_sync (workingDir cfg rt) fs;
            results =
              (if by = Str ''name'' then
                 Inr (filter (\<lambda>f. str_includes (path_basename f) (to_string query)) files)
               else if by = Str ''content'' then
                 Inr (filter (\<lambda>f. case readFileSync fs f of
                                     Inr content \<Rightarrow> str_includes content (to_string query)
                                   | Inl e \<Rightarrow> False) files)
               else if by = Str ''date'' then filter_by_date fs (to_string query) files
               else Inr [])
        in case results of
             Inl e \<Rightarrow> (Inl e, fs)
           | Inr rs \<Rightarrow>
               (Inr (Arr (map (\<lambda>f. Str (path_relative (cwd rt) (workingDir cfg rt) f)) rs)), fs))"

text \<open>The group key of one file: \<^verbatim>\<open>path.extname(file).slice(1) || "no-extension"\<close>,
  or \<^verbatim>\<open>stats.mtime.toISOString().split("T")[0]\<close>; with any other selector the
  variable stays \<^verbatim>\<open>undefined\<close>.\<close>

definition groupKey :: "filesystem \<Rightarrow> jsval \<Rightarrow> string \<Rightarrow> exn + jsval" where
  "groupKey fs by file =
     (if by = Str ''extension'' then
        (let e = drop 1 (path_extname file) in Inr (Str (if e = [] then ''no-extension'' else e)))
      else if by = Str ''date'' then
        (case statSync_mtime fs file of
           Inl e \<Rightarrow> Inl e
         | Inr m \<Rightarrow> Inr (Str (hd (split_on CHR ''T'' m))))
      else Inr Undefined)"

type_synonym groups = "(string \<times> string list) list"

text \<open>\<^verbatim>\<open>groups[groupKey] = groups[groupKey] || []; groups[groupKey].push(...)\<close>: a key
  that \<^verbatim>\<open>groups\<close> inherits from \<^verbatim>\<open>Object.prototype\<close> reads as a truthy value without
  \<^verbatim>\<open>push\<close>.\<close>

definition groups_push :: "runtime \<Rightarrow> groups \<Rightarrow> string \<Rightarrow> string \<Rightarrow> exn + groups" where
  "groups_push rt groups k rel =
     (case map_of groups k of
        Some ps \<Rightarrow> Inr (AList.update k (ps @ [rel]) groups)
      | None \<Rightarrow>
          if proto_member rt k then Inl (TypeError ''groups[groupKey].push is not a function'')
          else Inr (AList.update k [rel] groups))"

definition organize_one ::
  "config \<Rightarrow> runtime \<Rightarrow> jsval \<Rightarrow> string \<Rightarrow> groups \<Rightarrow> filesystem \<Rightarrow> groups effect" where
  "organize_one cfg rt by file groups fs =
     (case groupKey fs by file of
        Inl e \<Rightarrow> (Inl e, fs)
      | Inr (Str k) \<Rightarrow>
          (let targetDir = path_join [workingDir cfg rt, k];
               (made, fs1) = (if \<not> existsSync fs targetDir then mkdirSync fs targetDir
                              else (Inr (), fs))
           in case made of
                Inl e \<Rightarrow> (Inl e, fs1)
              | Inr u \<Rightarrow>
                  (let newPath = path_join [targetDir, path_basename file]
                   in case renameSync fs1 file newPath of
                        (Inl e, fs2) \<Rightarrow> (Inl e, fs2)
                      | (Inr u, fs2) \<Rightarrow>
                          (groups_push rt groups k
                             (path_relative (cwd rt) (workingDir cfg rt) newPath), fs2)))
      | Inr v \<Rightarrow> (Inl (TypeError ''The path argument must be of type string''), fs))"

fun organize_loop ::
  "config \<Rightarrow> runtime \<Rightarrow> jsval \<Rightarrow> string list \<Rightarrow> groups \<Rightarrow> filesystem \<Rightarrow> groups effect" where
  "organize_loop cfg rt by [] groups fs = (Inr groups, fs)"
| "organize_loop cfg rt by (file # files) groups fs =
     (case organize_one cfg rt by file groups fs of
        (Inl e, fs') \<Rightarrow> (Inl e, fs')
      | (Inr groups', fs') \<Rightarrow> organize_loop cfg rt by files groups' fs')"

definition groups_value :: "groups \<Rightarrow> jsval" where
  "groups_value groups = Obj (map (\<lambda>(k, ps). (k, Arr (map Str ps))) groups)"

definition organize_files :: "config \<Rightarrow> runtime \<Rightarrow> filesystem \<Rightarrow> jsval \<Rightarrow> jsval effect" where
  "organize_files cfg rt fs args =
     (if nullish args then (Inl destructure_error, fs)
      else
        let by = (if own args ''by'' = Undefined then Str ''extension'' else own args ''by'');
            files = glob_sync (workingDir cfg rt) fs
        in case organize_loop cfg rt by files [] fs of
             (Inl e, fs') \<Rightarrow> (Inl e, fs')
           | (Inr groups, fs') \<Rightarrow> (Inr (groups_value groups), fs'))"

definition replace_text :: "config \<Rightarrow> runtime \<Rightarrow> filesystem \<Rightarrow> jsval \<Rightarrow> jsval effect" where
  "replace_text cfg rt fs args =
     (if nullish args then (Inl destructure_error, fs)
      else case ensureSafePath cfg rt (own args ''filename'') of
        Inl e \<Rightarrow> (Inl e, fs)
      | Inr filePath \<Rightarrow>
          (if \<not> existsSync fs filePath then (Inl (Error ''File not found''), fs)
           else (case readFileSync fs filePath of
              Inl e \<Rightarrow> (Inl e, fs)
            | Inr content \<Rightarrow>
                (case replace_all rt (regexp_source (own args ''search''))
                        (to_string (own args ''replace'')) content of
                   Inl e \<Rightarrow> (Inl e, fs)
                 | Inr newContent \<Rightarrow>
                     (case writeFileSync rt fs filePath newContent of
                        (Inl e, fs') \<Rightarrow> (Inl e, fs')
                      | (Inr u, fs') \<Rightarrow> (Inr (Str (''Text replaced in '' @ filePath)), fs'))))))"

definition delete_file :: "config \<Rightarrow> runtime \<Rightarrow> filesystem \<Rightarrow> jsval \<Rightarrow> jsval effect" where
  "delete_file cfg rt fs args =
     (if nullish args then (Inl destructure_error, fs)
      else if \<not> allowDelete cfg then
        (Inl (Error ''File deletion is disabled in configuration''), fs)
      else case ensureSafePath cfg rt (own args ''filename'') of
        Inl e \<Rightarrow> (Inl e, fs)
      | Inr filePath \<Rightarrow>
          (if \<not> existsSync fs filePath then (Inl (Error ''File not found''), fs)
           else (case unlinkSync fs filePath of
              (Inl e, fs') \<Rightarrow> (Inl e, fs')
            | (Inr u, fs') \<Rightarrow> (Inr (Str (''File deleted: '' @ filePath)), fs'))))"

text \<open>\<^verbatim>\<open>Object.keys(tools)\<close>, in the order of \<^verbatim>\<open>module.exports\<close>.\<close>

definition tool_names :: "string list" where
  "tool_names = [''analyze_logs'', ''search_files'', ''organize_files'', ''replace_text'', ''delete_file'']"

text \<open>\<^verbatim>\<open>tools[name](args)\<close>: the name is converted to a property key; an own member
  is one of the five tools, an inherited one is the runtime's, and anything else is
  \<^verbatim>\<open>undefined\<close>, whose call throws.\<close>

definition call_tool :: "config \<Rightarrow> runtime \<Rightarrow> filesystem \<Rightarrow> jsval \<Rightarrow> jsval \<Rightarrow> jsval effect" where
  "call_tool cfg rt fs name args =
     (let k = to_string name
      in if k = ''analyze_logs'' then analyze_logs cfg rt fs args
         else if k = ''search_files'' then search_files cfg rt fs args
         else if k = ''organize_files'' then organize_files cfg rt fs args
         else if k = ''replace_text'' then replace_text cfg rt fs args
         else if k = ''delete_file'' then delete_file cfg rt fs args
         else if proto_member rt k then (proto_call rt k args, fs)
         else (Inl (TypeError ''tools[name] is not a function''), fs))"

subsection \<open>The dispatcher and the HTTP front-end (\<^verbatim>\<open>mcp-server.js\<close>)\<close>

definition error_envelope :: "jsval \<Rightarrow> int \<Rightarrow> string \<Rightarrow> jsval" where
  "error_envelope i c m =
     Obj [(''jsonrpc'', Str ''2.0''), (''id'', i),
          (''error'', Obj [(''code'', Num c), (''message'', Str m)])]"

definition text_value :: "jsval \<Rightarrow> jsval" where
  "text_value result = (case JSON_stringify result of None \<Rightarrow> Undefined | Some t \<Rightarrow> Str t)"

definition result_envelope :: "jsval \<Rightarrow> jsval \<Rightarrow> jsval" where
  "result_envelope i result =
     Obj [(''jsonrpc'', Str ''2.0''), (''id'', i),
          (''result'', Obj [(''content'',
             Arr [Obj [(''type'', Str ''text''), (''text'', text_value result)]])])]"

definition capabilities :: "config \<Rightarrow> string list" where
  "capabilities cfg =
     filter (\<lambda>name. name \<noteq> ''delete_file'' \<or> truthy (ALLOW_DELETE cfg)) tool_names"

definition capabilities_envelope :: "config \<Rightarrow> jsval \<Rightarrow> jsval" where
  "capabilities_envelope cfg i =
     Obj [(''jsonrpc'', Str ''2.0''), (''id'', i),
          (''result'', Obj [(''capabilities'',
             Obj [(''tools'', Arr (map Str (capabilities cfg)))])])]"

text \<open>
  \<^verbatim>\<open>handleSingleCall\<close>. The reads \<^verbatim>\<open>json.method\<close> and
  \<^verbatim>\<open>const { name, arguments: args } = json.params\<close> stand before the \<^verbatim>\<open>try\<close>:
  what they throw leaves the function. Everything the tool call throws, the call of a
  missing tool included, is caught and turned into an envelope with code \<open>-32000\<close>.
\<close>

definition handleSingleCall :: "config \<Rightarrow> runtime \<Rightarrow> filesystem \<Rightarrow> jsval \<Rightarrow> jsval effect" where
  "handleSingleCall cfg rt fs json =
     (case read_prop json ''method'' of
        Inl e \<Rightarrow> (Inl e, fs)
      | Inr method \<Rightarrow>
          (if method = Str ''tool_call'' then
             (let params = own json ''params''
              in if nullish params then (Inl destructure_error, fs)
                 else
                   (case call_tool cfg rt fs (own params ''name'') (own params ''arguments'') of
                      (Inr result, fs') \<Rightarrow> (Inr (result_envelope (own json ''id'') result), fs')
                    | (Inl error, fs') \<Rightarrow>
                        (Inr (error_envelope (own json ''id'') (- 32000) (message error)), fs')))
           else if method = Str ''initialize'' then
             (Inr (capabilities_envelope cfg (own json ''id'')), fs)
           else (Inr (error_envelope (own json ''id'') (- 32600) ''Invalid method''), fs)))"

text \<open>
  An HTTP request as the handler sees it. \<open>body\<close> is what \<^verbatim>\<open>JSON.parse(body)\<close> makes
  of the received text: the \<^verbatim>\<open>SyntaxError\<close> it throws, or the parsed document.
\<close>

record http_request =
  http_method :: string
  url :: string
  authorization :: "string option"
  body :: "exn + jsval"

record http_response =
  status :: nat
  payload :: jsval

definition top_level_error :: "int \<Rightarrow> string \<Rightarrow> jsval" where
  "top_level_error c m =
     serialize (Obj [(''jsonrpc'', Str ''2.0''),
                     (''error'', Obj [(''code'', Num c), (''message'', Str m)])])"

text \<open>The batch loop: one call after the other, on the file system the previous one
  left; a call that throws ends the loop.\<close>

fun handle_items ::
  "config \<Rightarrow> runtime \<Rightarrow> jsval list \<Rightarrow> jsval list \<Rightarrow> filesystem \<Rightarrow> (jsval list) effect" where
  "handle_items cfg rt [] responses fs = (Inr responses, fs)"
| "handle_items cfg rt (item # items) responses fs =
     (case handleSingleCall cfg rt fs item of
        (Inl e, fs') \<Rightarrow> (Inl e, fs')
      | (Inr resp, fs') \<Rightarrow>
          handle_items cfg rt items (if truthy resp then responses @ [resp] else responses) fs')"

definition handle_body :: "config \<Rightarrow> runtime \<Rightarrow> filesystem \<Rightarrow> jsval \<Rightarrow> (jsval list) effect" where
  "handle_body cfg rt fs json =
     (case json of
        Arr items \<Rightarrow> handle_items cfg rt items [] fs
      | _ \<Rightarrow>
          (case handleSingleCall cfg rt fs json of
             (Inl e, fs') \<Rightarrow> (Inl e, fs')
           | (Inr resp, fs') \<Rightarrow> (Inr (if truthy resp then [resp] else []), fs')))"

definition authorized :: "config \<Rightarrow> http_request \<Rightarrow> bool" where
  "authorized cfg req =
     (case authorization req of
        None \<Rightarrow> False
      | Some authHeader \<Rightarrow> authHeader \<noteq> [] \<and> authHeader = ''Bearer '' @ authToken cfg)"

definition server :: "config \<Rightarrow> runtime \<Rightarrow> filesystem \<Rightarrow> http_request \<Rightarrow> http_response \<times> filesystem" where
  "server cfg rt fs req =
     (if http_method req = ''POST'' \<and> url req = ''/mcp'' then
        (if \<not> authorized cfg req then
           (\<lparr>status = 401, payload = top_level_error (- 32001) ''Unauthorized''\<rparr>, fs)
         else
           (case body req of
              Inl e \<Rightarrow> (\<lparr>status = 500, payload = top_level_error (- 32000) (message e)\<rparr>, fs)
            | Inr json \<Rightarrow>
                (case handle_body cfg rt fs json of
                   (Inl e, fs') \<Rightarrow>
                     (\<lparr>status = 500, payload = top_level_error (- 32000) (message e)\<rparr>, fs')
                 | (Inr responses, fs') \<Rightarrow>
                     (\<lparr>status = 200,
                       payload = serialize (if length responses = 1 then hd responses
                                            else Arr responses)\<rparr>, fs'))))
      else (\<lparr>status = 404, payload = top_level_error (- 32600) ''Not Found''\<rparr>, fs))"

subsection \<open>Notions used in the statements\<close>

definition isArray :: "jsval \<Rightarrow> bool" where
  "isArray v = (case v of Arr vs \<Rightarrow> True | _ \<Rightarrow> False)"

definition has_member :: "jsval \<Rightarrow> string \<Rightarrow> bool" where
  "has_member v k = (case v of Obj kvs \<Rightarrow> map_of kvs k \<noteq> None | _ \<Rightarrow> False)"

text \<open>A request object that the dispatcher can take apart: an object, with a
  \<^verbatim>\<open>params\<close> member other than \<^verbatim>\<open>null\<close> when its method is \<^verbatim>\<open>tool_call\<close>.\<close>

definition well_formed_request :: "jsval \<Rightarrow> bool" where
  "well_formed_request json =
     (case json of
        Obj kvs \<Rightarrow> own json ''method'' \<noteq> Str ''tool_call'' \<or> \<not> nullish (own json ''params'')
      | _ \<Rightarrow> False)"

definition well_formed_body :: "jsval \<Rightarrow> bool" where
  "well_formed_body json =
     (case json of
        Arr items \<Rightarrow> list_all well_formed_request items
      | _ \<Rightarrow> well_formed_request json)"

text \<open>The file system after a sequence of requests has been dispatched, one after the
  other.\<close>

fun fs_after :: "config \<Rightarrow> runtime \<Rightarrow> filesystem \<Rightarrow> jsval list \<Rightarrow> filesystem" where
  "fs_after cfg rt fs [] = fs"
| "fs_after cfg rt fs (item # items) = fs_after cfg rt (snd (handleSingleCall cfg rt fs item)) items"

subsection \<open>Worked examples: a runtime, configurations, file systems, requests\<close>

text \<open>
  A runtime for the examples, with the members of \<^verbatim>\<open>Object.prototype\<close> as V8 has
  them. A value returned by an inherited member stands for what \<^verbatim>\<open>JSON.stringify\<close>
  makes of it. The regular-expression engine of this runtime is never reached by the
  examples: their patterns are plain text.
\<close>

definition object_prototype_names :: "string list" where
  "object_prototype_names =
     [''constructor'', ''__defineGetter__'', ''__defineSetter__'', ''hasOwnProperty'',
      ''__lookupGetter__'', ''__lookupSetter__'', ''isPrototypeOf'', ''propertyIsEnumerable'',
      ''toString'', ''valueOf'', ''__proto__'', ''toLocaleString'']"

definition object_prototype_call :: "string \<Rightarrow> jsval \<Rightarrow> exn + jsval" where
  "object_prototype_call k a =
     (if k = ''constructor'' then Inr (if nullish a then Obj [] else a)
      else if k = ''toString'' \<or> k = ''toLocaleString'' then Inr (Str ''[object Object]'')
      else if k = ''valueOf'' then Inr (Obj [])
      else if k = ''hasOwnProperty'' \<or> k = ''propertyIsEnumerable''
        then Inr (Bool (to_string a \<in> set tool_names))
      else if k = ''isPrototypeOf'' then Inr (Bool False)
      else if k = ''__lookupGetter__'' \<or> k = ''__lookupSetter__'' then Inr Undefined
      else if k = ''__defineGetter__'' \<or> k = ''__defineSetter__''
        then Inl (TypeError ''Object.prototype.__defineGetter__: Expecting function'')
      else Inl (TypeError ''tools[name] is not a function''))"

definition example_runtime :: runtime where
  "example_runtime =
     \<lparr>cwd = ''/'', now = ''2024-01-01T00:00:00.000Z'',
      proto_member = (\<lambda>k. k \<in> set object_prototype_names),
      proto_call = object_prototype_call,
      regexp_match = (\<lambda>p s. Inl (SyntaxError ''Invalid regular expression'')),
      regexp_replace = (\<lambda>p r s. Inl (SyntaxError ''Invalid regular expression''))\<rparr>"

definition example_config :: "bool \<Rightarrow> config" where
  "example_config deletion =
     \<lparr>MCP_SERVER_AUTH_TOKEN = Some ''s3cret'', WORKING_DIR = Some ''/data'',
      ALLOW_DELETE = Bool deletion\<rparr>"

definition example_fs :: filesystem where
  "example_fs =
     [(''/data'', Dir),
      (''/data/a.txt'', File ''http://x'' ''2023-05-06T10:00:00.000Z''),
      (''/data/B.TXT'', File ''ok'' ''2023-05-07T23:59:59.000Z''),
      (''/data/.env'', File ''KEY=1'' ''2023-05-07T10:00:00.000Z'')]"

definition tool_call :: "jsval \<Rightarrow> string \<Rightarrow> jsval \<Rightarrow> jsval" where
  "tool_call i name args =
     Obj [(''jsonrpc'', Str ''2.0''), (''id'', i), (''method'', Str ''tool_call''),
          (''params'', Obj [(''name'', Str name), (''arguments'', args)])]"

definition initialize :: "jsval \<Rightarrow> jsval" where
  "initialize i = Obj [(''jsonrpc'', Str ''2.0''), (''id'', i), (''method'', Str ''initialize'')]"

definition post_mcp :: "string option \<Rightarrow> exn + jsval \<Rightarrow> http_request" where
  "post_mcp auth b = \<lparr>http_method = ''POST'', url = ''/mcp'', authorization = auth, body = b\<rparr>"

definition replace_http :: jsval where
  "replace_http =
     Obj [(''filename'', Str ''a.txt''), (''search'', Str ''http''), (''replace'', Str ''https'')]"

definition missing_params :: jsval where
  "missing_params = Obj [(''jsonrpc'', Str ''2.0''), (''id'', Num 1), (''method'', Str ''tool_call'')]"

definition two_requests :: jsval where
  "two_requests = Arr [initialize (Num 1), tool_call (Num 2) ''delete_file'' (Obj [(''filename'', Str ''a.txt'')])]"

















section \<open>The path sandbox\<close>

lemma ensureSafePath_rejects_traversal:
  "ensureSafePath (example_config False) example_runtime (Str ''../../etc/passwd'')
     = Inl (Error ''Attempt to access path outside WORKING_DIR'')"
  by code_simp

lemma ensureSafePath_prefix:
  "ensureSafePath cfg rt filename = Inr p \<Longrightarrow>
     startsWith p (path_resolve (cwd rt) [workingDir cfg rt])"
  by (auto simp: ensureSafePath_def Let_def split: jsval.splits if_splits)

text \<open>
  C1. Claim: every input whose resolution leaves the root is refused, a sibling directory
  whose name only begins with the root's name included. The check is
  \<^verbatim>\<open>fullPath.startsWith(path.resolve(workingDir))\<close>, a comparison of texts: with the
  root \<^verbatim>\<open>/data\<close>, both \<^verbatim>\<open>../data-secret/x\<close> and \<^verbatim>\<open>/data-secret/x\<close> resolve to
  \<^verbatim>\<open>/data-secret/x\<close>, which lies outside the root (the way from the root to it starts
  with \<^verbatim>\<open>..\<close>) and is returned as a safe path.
\<close>

theorem ensureSafePath_accepts_sibling:
  "ensureSafePath (example_config False) example_runtime (Str ''../data-secret/x'') = Inr ''/data-secret/x''
   \<and> ensureSafePath (example_config False) example_runtime (Str ''/data-secret/x'') = Inr ''/data-secret/x''
   \<and> path_resolve (cwd example_runtime) [workingDir (example_config False) example_runtime] = ''/data''
   \<and> path_relative (cwd example_runtime) ''/data'' ''/data-secret/x'' = ''../data-secret/x''"
  by code_simp

section \<open>The dispatcher\<close>

lemma handleSingleCall_catches:
  assumes "\<not> nullish json" and "own json ''method'' = Str ''tool_call''"
    and "\<not> nullish (own json ''params'')"
    and "call_tool cfg rt fs (own (own json ''params'') ''name'') (own (own json ''params'') ''arguments'')
           = (Inl e, fs')"
  shows "handleSingleCall cfg rt fs json
           = (Inr (error_envelope (own json ''id'') (- 32000) (message e)), fs')"
  using assms by (simp add: handleSingleCall_def read_prop_def)

text \<open>
  C3. Claim: whatever the params of a \<^verbatim>\<open>tool_call\<close> item, a missing params member
  included, the dispatcher catches the failure and returns one error envelope with code
  \<open>-32000\<close>. The destructuring of \<^verbatim>\<open>json.params\<close> stands one line before the
  \<^verbatim>\<open>try\<close>: on a request without params the \<^verbatim>\<open>TypeError\<close> leaves
  \<^verbatim>\<open>handleSingleCall\<close>, and the front-end answers with status 500 and an envelope
  without the request's id.
\<close>

theorem handleSingleCall_missing_params_throws:
  "handleSingleCall cfg rt fs missing_params = (Inl destructure_error, fs)
   \<and> server (example_config False) example_runtime example_fs
        (post_mcp (Some ''Bearer s3cret'') (Inr missing_params))
       = (\<lparr>status = 500,
            payload = Obj [(''jsonrpc'', Str ''2.0''),
                           (''error'', Obj [(''code'', Num (- 32000)),
                                            (''message'', Str (message destructure_error))])]\<rparr>,
          example_fs)"
proof
  show "handleSingleCall cfg rt fs missing_params = (Inl destructure_error, fs)"
    by (simp add: handleSingleCall_def read_prop_def missing_params_def)
  show "server (example_config False) example_runtime example_fs
          (post_mcp (Some ''Bearer s3cret'') (Inr missing_params))
        = (\<lparr>status = 500,
             payload = Obj [(''jsonrpc'', Str ''2.0''),
                            (''error'', Obj [(''code'', Num (- 32000)),
                                             (''message'', Str (message destructure_error))])]\<rparr>,
           example_fs)"
    by (simp add: server_def post_mcp_def authorized_def authToken_def example_config_def
        handle_body_def handleSingleCall_def read_prop_def top_level_error_def
        missing_params_def)
qed

section \<open>Capabilities and the deletion switch\<close>

lemma capabilities_flag_not_boolean:
  "ALLOW_DELETE cfg = Str ''true'' \<Longrightarrow>
     ''delete_file'' \<in> set (capabilities cfg) \<and> \<not> allowDelete cfg"
  by (simp add: capabilities_def tool_names_def allowDelete_def)

text \<open>
  C6. For both settings of the deletion flag, an \<^verbatim>\<open>initialize\<close> request is answered
  with the registered tool names, without touching the file system; \<^verbatim>\<open>delete_file\<close>
  is in the list exactly when deletion is enabled, and the four other names always are.
\<close>

theorem initialize_capabilities:
  assumes "ALLOW_DELETE cfg = Bool enabled"
    and "read_prop json ''method'' = Inr (Str ''initialize'')"
  shows "handleSingleCall cfg rt fs json = (Inr (capabilities_envelope cfg (own json ''id'')), fs)
     \<and> capabilities cfg
         = [''analyze_logs'', ''search_files'', ''organize_files'', ''replace_text'']
           @ (if enabled then [''delete_file''] else [])
     \<and> (''delete_file'' \<in> set (capabilities cfg)) = allowDelete cfg
     \<and> allowDelete cfg = enabled"
  using assms
  by (simp add: handleSingleCall_def capabilities_def tool_names_def allowDelete_def)

theorem initialize_capabilities_witness:
  "handleSingleCall (example_config False) example_runtime example_fs (initialize (Num 1))
     = (Inr (Obj [(''jsonrpc'', Str ''2.0''), (''id'', Num 1),
                  (''result'', Obj [(''capabilities'', Obj [(''tools'',
                     Arr [Str ''analyze_logs'', Str ''search_files'', Str ''organize_files'',
                          Str ''replace_text''])])])]), example_fs)
   \<and> handleSingleCall (example_config True) example_runtime example_fs (initialize (Num 1))
     = (Inr (Obj [(''jsonrpc'', Str ''2.0''), (''id'', Num 1),
                  (''result'', Obj [(''capabilities'', Obj [(''tools'',
                     Arr [Str ''analyze_logs'', Str ''search_files'', Str ''organize_files'',
                          Str ''replace_text'', Str ''delete_file''])])])]), example_fs)"
proof -
  have m: "read_prop (initialize (Num 1)) ''method'' = Inr (Str ''initialize'')"
    by (simp add: read_prop_def initialize_def)
  have off: "ALLOW_DELETE (example_config False) = Bool False"
    and on: "ALLOW_DELETE (example_config True) = Bool True"
    by (simp_all add: example_config_def)
  show ?thesis
    using initialize_capabilities [OF off m, of example_runtime example_fs]
      initialize_capabilities [OF on m, of example_runtime example_fs]
    by (simp add: capabilities_envelope_def initialize_def)
qed

text \<open>
  C7. With deletion disabled, a \<^verbatim>\<open>delete_file\<close> call with an argument object, whatever
  file it names, is answered with an error envelope of code \<open>-32000\<close> whose message says
  that deletion is disabled, and the file system is left as it was.
\<close>

theorem delete_file_disabled:
  assumes "\<not> allowDelete cfg"
    and "\<not> nullish json" and "own json ''method'' = Str ''tool_call''"
    and "\<not> nullish (own json ''params'')"
    and "own (own json ''params'') ''name'' = Str ''delete_file''"
    and "\<not> nullish (own (own json ''params'') ''arguments'')"
  shows "handleSingleCall cfg rt fs json
           = (Inr (error_envelope (own json ''id'') (- 32000)
                     ''File deletion is disabled in configuration''), fs)"
  using assms
  by (simp add: handleSingleCall_def read_prop_def call_tool_def delete_file_def)

theorem delete_file_disabled_witness:
  "\<not> allowDelete (example_config False)
   \<and> handleSingleCall (example_config False) example_runtime example_fs
        (tool_call (Num 7) ''delete_file'' (Obj [(''filename'', Str ''a.txt'')]))
       = (Inr (Obj [(''jsonrpc'', Str ''2.0''), (''id'', Num 7),
                    (''error'', Obj [(''code'', Num (- 32000)),
                       (''message'', Str ''File deletion is disabled in configuration'')])]),
          example_fs)
   \<and> existsSync example_fs ''/data/a.txt''"
proof -
  have off: "\<not> allowDelete (example_config False)"
    by (simp add: allowDelete_def example_config_def)
  show ?thesis
    using off
      delete_file_disabled [OF off, of "tool_call (Num 7) ''delete_file'' (Obj [(''filename'', Str ''a.txt'')])"
        example_runtime example_fs]
    by (simp add: tool_call_def error_envelope_def existsSync_def example_fs_def)
qed

section \<open>Envelopes and the batch loop\<close>

lemma handleSingleCall_envelope:
  assumes "handleSingleCall cfg rt fs json = (Inr resp, fs')"
  shows "(\<exists>result. resp = result_envelope (own json ''id'') result)
       \<or> (\<exists>c m. resp = error_envelope (own json ''id'') c m)
       \<or> resp = capabilities_envelope cfg (own json ''id'')"
  using assms
  by (auto simp: handleSingleCall_def read_prop_def Let_def split: if_splits sum.splits prod.splits)

lemma envelope_id:
  "own (result_envelope i r) ''id'' = i"
  "own (error_envelope i c m) ''id'' = i"
  "own (capabilities_envelope cfg i) ''id'' = i"
  by (simp_all add: result_envelope_def error_envelope_def capabilities_envelope_def)

lemma envelope_serialized_id:
  "own (serialize (result_envelope i r)) ''id'' = serialize i"
  "own (serialize (error_envelope i c m)) ''id'' = serialize i"
  "own (serialize (capabilities_envelope cfg i)) ''id'' = serialize i"
  by (cases "i = Undefined"; simp add: result_envelope_def error_envelope_def capabilities_envelope_def)+

lemma envelope_truthy:
  "truthy (result_envelope i r)" "truthy (error_envelope i c m)" "truthy (capabilities_envelope cfg i)"
  by (simp_all add: result_envelope_def error_envelope_def capabilities_envelope_def)

lemma envelope_not_array:
  "\<not> isArray (serialize (result_envelope i r))"
  "\<not> isArray (serialize (error_envelope i c m))"
  "\<not> isArray (serialize (capabilities_envelope cfg i))"
  by (simp_all add: result_envelope_def error_envelope_def capabilities_envelope_def isArray_def)

lemma handleSingleCall_response:
  assumes "handleSingleCall cfg rt fs json = (Inr resp, fs')"
  shows "truthy resp" and "\<not> isArray (serialize resp)"
    and "own resp ''id'' = own json ''id''"
    and "own (serialize resp) ''id'' = serialize (own json ''id'')"
  using handleSingleCall_envelope [OF assms]
  by (auto simp: envelope_id envelope_serialized_id envelope_truthy envelope_not_array)

lemma handleSingleCall_well_formed:
  assumes "well_formed_request json"
  shows "\<exists>resp. fst (handleSingleCall cfg rt fs json) = Inr resp"
  using assms
  by (auto simp: well_formed_request_def handleSingleCall_def read_prop_def Let_def
      split: jsval.splits sum.splits prod.splits)

lemma handle_items_in_order:
  assumes "list_all well_formed_request items"
  shows "\<exists>rs. handle_items cfg rt items acc fs = (Inr (acc @ rs), fs_after cfg rt fs items)
            \<and> length rs = length items
            \<and> (\<forall>i<length items.
                  fst (handleSingleCall cfg rt (fs_after cfg rt fs (take i items)) (items ! i)) = Inr (rs ! i))"
  using assms
proof (induction items arbitrary: acc fs)
  case Nil
  then show ?case by simp
next
  case (Cons item items)
  from Cons.prems have wf: "well_formed_request item" and rest: "list_all well_formed_request items"
    by simp_all
  obtain r1 fs1 where c: "handleSingleCall cfg rt fs item = (r1, fs1)"
    by (cases "handleSingleCall cfg rt fs item")
  with handleSingleCall_well_formed [OF wf, of cfg rt fs] obtain resp
    where call: "handleSingleCall cfg rt fs item = (Inr resp, fs1)" by auto
  from Cons.IH [OF rest, of "acc @ [resp]" fs1] obtain rs
    where h: "handle_items cfg rt items (acc @ [resp]) fs1 = (Inr ((acc @ [resp]) @ rs), fs_after cfg rt fs1 items)"
      and len: "length rs = length items"
      and nth: "\<forall>i<length items. fst (handleSingleCall cfg rt (fs_after cfg rt fs1 (take i items)) (items ! i)) = Inr (rs ! i)"
    by blast
  have "handle_items cfg rt (item # items) acc fs = (Inr (acc @ resp # rs), fs_after cfg rt fs (item # items))"
    using call h handleSingleCall_response(1) [OF call] by simp
  moreover have "length (resp # rs) = length (item # items)" using len by simp
  moreover have "\<forall>i<length (item # items).
      fst (handleSingleCall cfg rt (fs_after cfg rt fs (take i (item # items))) ((item # items) ! i)) = Inr ((resp # rs) ! i)"
  proof (intro allI impI)
    fix i assume "i < length (item # items)"
    then show "fst (handleSingleCall cfg rt (fs_after cfg rt fs (take i (item # items))) ((item # items) ! i)) = Inr ((resp # rs) ! i)"
      using nth call by (cases i) simp_all
  qed
  ultimately show ?case by blast
qed

lemma handle_body_cases:
  "handle_body cfg rt fs (Arr items) = handle_items cfg rt items [] fs"
  "\<not> isArray json \<Longrightarrow> handle_body cfg rt fs json =
     (case handleSingleCall cfg rt fs json of
        (Inl e, fs') \<Rightarrow> (Inl e, fs')
      | (Inr resp, fs') \<Rightarrow> (Inr (if truthy resp then [resp] else []), fs'))"
  by (auto simp: handle_body_def isArray_def split: jsval.splits)

lemma server_authorized:
  assumes "http_method req = ''POST''" and "url req = ''/mcp''" and "authorized cfg req"
    and "body req = Inr json" and "handle_body cfg rt fs json = (Inr responses, fs')"
  shows "server cfg rt fs req
           = (\<lparr>status = 200,
                payload = serialize (if length responses = 1 then hd responses else Arr responses)\<rparr>, fs')"
  using assms by (simp add: server_def)

text \<open>
  C2. Claim: a single request object is answered by a single response object, and an array
  of \<open>N\<close> requests, \<open>N = 1\<close> included, by an array of \<open>N\<close> responses in order.
  The front-end writes \<^verbatim>\<open>responses.length === 1 ? responses[0] : responses\<close>, so a
  one-element array is answered by the bare response object.
\<close>

theorem server_singleton_batch_counterexample:
  "server (example_config False) example_runtime example_fs
      (post_mcp (Some ''Bearer s3cret'') (Inr (Arr [initialize (Num 1)])))
    = (\<lparr>status = 200,
         payload = Obj [(''jsonrpc'', Str ''2.0''), (''id'', Num 1),
                  (''result'', Obj [(''capabilities'', Obj [(''tools'',
                     Arr [Str ''analyze_logs'', Str ''search_files'', Str ''organize_files'',
                          Str ''replace_text''])])])]\<rparr>, example_fs)
   \<and> \<not> isArray (payload (fst (server (example_config False) example_runtime example_fs
      (post_mcp (Some ''Bearer s3cret'') (Inr (Arr [initialize (Num 1)]))))))"
  by code_simp


text \<open>
  C2, as amended. For an authorised request whose body is a well-formed request object or
  an array of such: the status is 200; a non-array body is answered by the dispatcher's one
  response, which is not an array and carries the request's id; an array of \<open>N \<noteq> 1\<close>
  requests is answered by an array of exactly \<open>N\<close> responses, the \<open>i\<close>-th being the
  dispatcher's answer to the \<open>i\<close>-th request on the file system its predecessors left,
  with that request's id; an array of one request is answered by that one response, bare.
\<close>

theorem server_response_shape:
  assumes "http_method req = ''POST''" and "url req = ''/mcp''" and "authorized cfg req"
    and "body req = Inr json" and "well_formed_body json"
  shows "\<exists>v fs'. server cfg rt fs req = (\<lparr>status = 200, payload = v\<rparr>, fs') \<and>
     (case json of
        Arr items \<Rightarrow>
          fs' = fs_after cfg rt fs items \<and>
          (if length items = 1 then
             \<not> isArray v \<and>
             (\<exists>resp. fst (handleSingleCall cfg rt fs (hd items)) = Inr resp \<and> v = serialize resp)
           else
             (\<exists>rs. v = Arr rs \<and> length rs = length items \<and>
               (\<forall>i<length items.
                  \<not> isArray (rs ! i) \<and>
                  own (rs ! i) ''id'' = serialize (own (items ! i) ''id'') \<and>
                  (\<exists>resp. fst (handleSingleCall cfg rt (fs_after cfg rt fs (take i items)) (items ! i))
                            = Inr resp \<and> rs ! i = serialize resp))))
      | _ \<Rightarrow>
          \<not> isArray v \<and> own v ''id'' = serialize (own json ''id'') \<and>
          (\<exists>resp. handleSingleCall cfg rt fs json = (Inr resp, fs') \<and> v = serialize resp))"
proof (cases "isArray json")
  case False
  with assms(5) have wf: "well_formed_request json"
    by (auto simp: well_formed_body_def isArray_def split: jsval.splits)
  obtain r1 fs1 where c: "handleSingleCall cfg rt fs json = (r1, fs1)"
    by (cases "handleSingleCall cfg rt fs json")
  with handleSingleCall_well_formed [OF wf, of cfg rt fs] obtain resp
    where call: "handleSingleCall cfg rt fs json = (Inr resp, fs1)" by auto
  note facts = handleSingleCall_response [OF call]
  have "handle_body cfg rt fs json = (Inr [resp], fs1)"
    using False call facts(1) by (simp add: handle_body_cases)
  from server_authorized [OF assms(1-4) this]
  have "server cfg rt fs req = (\<lparr>status = 200, payload = serialize resp\<rparr>, fs1)" by simp
  moreover have "case json of Arr items \<Rightarrow> False | _ \<Rightarrow> True"
    using False by (simp add: isArray_def split: jsval.splits)
  ultimately show ?thesis
    using call facts by (cases json) auto
next
  case True
  then obtain items where json: "json = Arr items"
    by (auto simp: isArray_def split: jsval.splits)
  with assms(5) have wf: "list_all well_formed_request items"
    by (simp add: well_formed_body_def)
  from handle_items_in_order [OF wf, of cfg rt "[]" fs] obtain rs
    where h: "handle_items cfg rt items [] fs = (Inr rs, fs_after cfg rt fs items)"
      and len: "length rs = length items"
      and nth: "\<forall>i<length items.
          fst (handleSingleCall cfg rt (fs_after cfg rt fs (take i items)) (items ! i)) = Inr (rs ! i)"
    by auto
  have body: "handle_body cfg rt fs json = (Inr rs, fs_after cfg rt fs items)"
    using h json by (simp add: handle_body_cases)
  note srv = server_authorized [OF assms(1-4) body]
  have each: "truthy (rs ! i) \<and> \<not> isArray (serialize (rs ! i)) \<and>
              own (serialize (rs ! i)) ''id'' = serialize (own (items ! i) ''id'')"
    if "i < length items" for i
  proof -
    obtain r f where "handleSingleCall cfg rt (fs_after cfg rt fs (take i items)) (items ! i) = (r, f)"
      by (cases "handleSingleCall cfg rt (fs_after cfg rt fs (take i items)) (items ! i)")
    with nth that
    have "handleSingleCall cfg rt (fs_after cfg rt fs (take i items)) (items ! i) = (Inr (rs ! i), f)"
      by auto
    from handleSingleCall_response [OF this] show ?thesis by simp
  qed
  show ?thesis
  proof (cases "length items = 1")
    case one: True
    from one len obtain r where rs: "rs = [r]" by (cases rs) auto
    from one obtain item where items: "items = [item]" by (cases items) auto
    from nth each [of 0] have "fst (handleSingleCall cfg rt fs item) = Inr r"
      and "\<not> isArray (serialize r)"
      by (simp_all add: rs items)
    then show ?thesis
      using srv json by (simp add: rs items)
  next
    case many: False
    have "serialize (Arr rs) = Arr (map serialize rs)"
    proof -
      have "r \<noteq> Undefined" if "r \<in> set rs" for r
      proof -
        from that obtain i where "i < length rs" and "rs ! i = r"
          by (auto simp: in_set_conv_nth)
        with each [of i] len show ?thesis by auto
      qed
      then show ?thesis by simp
    qed
    with srv many len have "server cfg rt fs req
        = (\<lparr>status = 200, payload = Arr (map serialize rs)\<rparr>, fs_after cfg rt fs items)"
      by simp
    with json many len nth each show ?thesis by simp
  qed
qed


theorem server_response_shape_witness:
  "authorized (example_config False) (post_mcp (Some ''Bearer s3cret'') (Inr two_requests))
   \<and> well_formed_body two_requests
   \<and> (\<exists>rs. payload (fst (server (example_config False) example_runtime example_fs
                 (post_mcp (Some ''Bearer s3cret'') (Inr two_requests)))) = Arr rs
          \<and> length rs = 2 \<and> own (rs ! 0) ''id'' = Num 1 \<and> own (rs ! 1) ''id'' = Num 2)"
proof -
  let ?req = "post_mcp (Some ''Bearer s3cret'') (Inr two_requests)"
  have h1: "http_method ?req = ''POST''" and h2: "url ?req = ''/mcp''"
    and h4: "body ?req = Inr two_requests"
    by (simp_all add: post_mcp_def)
  have h3: "authorized (example_config False) ?req"
    by (simp add: authorized_def post_mcp_def authToken_def example_config_def)
  have h5: "well_formed_body two_requests"
    by (simp add: well_formed_body_def well_formed_request_def two_requests_def
        initialize_def tool_call_def)
  from server_response_shape [OF h1 h2 h3 h4 h5, of example_runtime example_fs]
  obtain rs where "payload (fst (server (example_config False) example_runtime example_fs ?req)) = Arr rs"
    and "length rs = 2"
    and "\<forall>i<2. own (rs ! i) ''id'' = serialize (own ([initialize (Num 1),
           tool_call (Num 2) ''delete_file'' (Obj [(''filename'', Str ''a.txt'')])] ! i) ''id'')"
    by (auto simp: two_requests_def)
  moreover from this(3) have "own (rs ! 0) ''id'' = Num 1" and "own (rs ! 1) ''id'' = Num 2"
    by (simp_all add: initialize_def tool_call_def)
  ultimately show ?thesis using h3 h5 by auto
qed


section \<open>Authentication\<close>

text \<open>
  C8. A \<^verbatim>\<open>POST /mcp\<close> whose \<^verbatim>\<open>Authorization\<close> header is absent or differs from
  \<^verbatim>\<open>Bearer \<close> followed by the configured token is answered with status 401 and
  the envelope with code \<open>-32001\<close>, whatever its body, and the file system is untouched:
  neither the body nor the dispatcher has any part in the answer. Status 401 is given to
  these requests only.
\<close>

theorem server_unauthorized:
  assumes "http_method req = ''POST''" and "url req = ''/mcp''"
  shows "(authorization req \<noteq> Some (''Bearer '' @ authToken cfg) \<longrightarrow>
          server cfg rt fs req
            = (\<lparr>status = 401,
                 payload = Obj [(''jsonrpc'', Str ''2.0''),
                                (''error'', Obj [(''code'', Num (- 32001)),
                                                 (''message'', Str ''Unauthorized'')])]\<rparr>, fs))
       \<and> (status (fst (server cfg rt fs req)) = 401)
           = (authorization req \<noteq> Some (''Bearer '' @ authToken cfg))"
  using assms
  by (auto simp: server_def authorized_def top_level_error_def
      split: option.splits sum.splits prod.splits)

theorem server_unauthorized_witness:
  "server (example_config False) example_runtime example_fs (post_mcp None (Inr (initialize (Num 1))))
     = (\<lparr>status = 401,
          payload = Obj [(''jsonrpc'', Str ''2.0''),
                         (''error'', Obj [(''code'', Num (- 32001)),
                                          (''message'', Str ''Unauthorized'')])]\<rparr>, example_fs)
   \<and> server (example_config False) example_runtime example_fs
        (post_mcp (Some ''Bearer s3cre'') (Inr (initialize (Num 1))))
     = (\<lparr>status = 401,
          payload = Obj [(''jsonrpc'', Str ''2.0''),
                         (''error'', Obj [(''code'', Num (- 32001)),
                                          (''message'', Str ''Unauthorized'')])]\<rparr>, example_fs)
   \<and> status (fst (server (example_config False) example_runtime example_fs
        (post_mcp (Some ''Bearer s3cret'') (Inr (initialize (Num 1)))))) \<noteq> 401"
  using server_unauthorized [of "post_mcp None (Inr (initialize (Num 1)))"
      "example_config False" example_runtime example_fs]
    server_unauthorized [of "post_mcp (Some ''Bearer s3cre'') (Inr (initialize (Num 1)))"
      "example_config False" example_runtime example_fs]
    server_unauthorized [of "post_mcp (Some ''Bearer s3cret'') (Inr (initialize (Num 1)))"
      "example_config False" example_runtime example_fs]
  by (simp add: post_mcp_def authToken_def example_config_def)

section \<open>Correlation ids\<close>

lemma top_level_error_no_id: "\<not> has_member (top_level_error c m) ''id''"
  by (simp add: top_level_error_def has_member_def)





section \<open>Searching\<close>

text \<open>
  C10. Whatever the query, a \<^verbatim>\<open>by\<close> argument other than \<^verbatim>\<open>"name"\<close>,
  \<^verbatim>\<open>"content"\<close> and \<^verbatim>\<open>"date"\<close> makes \<^verbatim>\<open>search_files\<close> return the empty
  list, not an error, and leaves the file system alone. (An absent \<^verbatim>\<open>by\<close> is the
  default \<^verbatim>\<open>"name"\<close>.)
\<close>

theorem search_files_unknown_selector:
  assumes "\<not> nullish args"
    and "own args ''by'' \<notin> {Undefined, Str ''name'', Str ''content'', Str ''date''}"
  shows "search_files cfg rt fs args = (Inr (Arr []), fs)"
  using assms by (simp add: search_files_def)

theorem search_files_unknown_selector_witness:
  "search_files (example_config False) example_runtime example_fs
     (Obj [(''query'', Str ''a''), (''by'', Str ''size'')]) = (Inr (Arr []), example_fs)"
  using search_files_unknown_selector [of "Obj [(''query'', Str ''a''), (''by'', Str ''size'')]"
      "example_config False" example_runtime example_fs]
  by simp

section \<open>Replacing text\<close>

lemma replace_http_first: "replace_all rt ''http'' ''https'' ''http://x'' = Inr ''https://x''"
  by (simp add: replace_all_def plain_def regexp_special_def startsWith_def)

lemma replace_http_second: "replace_all rt ''http'' ''https'' ''https://x'' = Inr ''httpss://x''"
  by (simp add: replace_all_def plain_def regexp_special_def startsWith_def)

lemma replace_text_on_file:
  assumes "\<not> nullish args" and "ensureSafePath cfg rt (own args ''filename'') = Inr p"
    and "map_of fs p = Some (File c0 m)"
    and "replace_all rt (regexp_source (own args ''search'')) (to_string (own args ''replace'')) c0 = Inr c1"
  shows "replace_text cfg rt fs args
           = (Inr (Str (''Text replaced in '' @ p)), AList.update p (File c1 (now rt)) fs)"
  using assms
  by (simp add: replace_text_def existsSync_def readFileSync_def writeFileSync_def)

text \<open>
  C4. Claim: \<^verbatim>\<open>replace_text\<close> with search \<^verbatim>\<open>http\<close> and replacement
  \<^verbatim>\<open>https\<close> turns \<^verbatim>\<open>http://x\<close> into \<^verbatim>\<open>https://x\<close>, and the same call once
  more leaves \<^verbatim>\<open>https://x\<close> as it is. The second call finds \<^verbatim>\<open>http\<close> at the
  start of \<^verbatim>\<open>https://x\<close> and replaces it again.
\<close>

theorem replace_text_twice_counterexample:
  "readFileSync
     (snd (replace_text (example_config False) example_runtime
        (snd (replace_text (example_config False) example_runtime example_fs replace_http))
        replace_http)) ''/data/a.txt'' = Inr ''httpss://x''
   \<and> readFileSync
     (snd (replace_text (example_config False) example_runtime
        (snd (replace_text (example_config False) example_runtime example_fs replace_http))
        replace_http)) ''/data/a.txt'' \<noteq> Inr ''https://x''"
  by code_simp

text \<open>
  C4, as amended. On a file with the text \<^verbatim>\<open>http://x\<close>, the call writes
  \<^verbatim>\<open>https://x\<close>; the identical call on the result writes \<^verbatim>\<open>httpss://x\<close>: every
  occurrence of the search text in the current content is replaced, so the call is not
  idempotent on this content.
\<close>

theorem replace_text_twice:
  assumes "\<not> nullish args" and "ensureSafePath cfg rt (own args ''filename'') = Inr p"
    and "own args ''search'' = Str ''http''" and "own args ''replace'' = Str ''https''"
    and "readFileSync fs p = Inr ''http://x''"
  shows "\<exists>fs1 fs2.
           replace_text cfg rt fs args = (Inr (Str (''Text replaced in '' @ p)), fs1)
         \<and> readFileSync fs1 p = Inr ''https://x''
         \<and> replace_text cfg rt fs1 args = (Inr (Str (''Text replaced in '' @ p)), fs2)
         \<and> readFileSync fs2 p = Inr ''httpss://x''"
proof -
  from assms(5) obtain m where f0: "map_of fs p = Some (File ''http://x'' m)"
    by (auto simp: readFileSync_def split: option.splits node.splits)
  define fs1 where "fs1 = AList.update p (File ''https://x'' (now rt)) fs"
  define fs2 where "fs2 = AList.update p (File ''httpss://x'' (now rt)) fs1"
  have src: "regexp_source (own args ''search'') = ''http''"
    and rep: "to_string (own args ''replace'') = ''https''"
    using assms(3,4) by (simp_all add: regexp_source_def)
  have one: "replace_text cfg rt fs args = (Inr (Str (''Text replaced in '' @ p)), fs1)"
    unfolding fs1_def
    by (rule replace_text_on_file [OF assms(1,2) f0]) (simp add: src rep replace_http_first)
  have f1: "map_of fs1 p = Some (File ''https://x'' (now rt))"
    by (simp add: fs1_def update_conv')
  have two: "replace_text cfg rt fs1 args = (Inr (Str (''Text replaced in '' @ p)), fs2)"
    unfolding fs2_def
    by (rule replace_text_on_file [OF assms(1,2) f1]) (simp add: src rep replace_http_second)
  have f2: "map_of fs2 p = Some (File ''httpss://x'' (now rt))"
    by (simp add: fs2_def update_conv')
  from one two f1 f2 show ?thesis
    by (auto simp: readFileSync_def)
qed

theorem replace_text_twice_witness:
  "readFileSync example_fs ''/data/a.txt'' = Inr ''http://x''
   \<and> (\<exists>fs1 fs2.
         replace_text (example_config False) example_runtime example_fs replace_http
           = (Inr (Str ''Text replaced in /data/a.txt''), fs1)
       \<and> readFileSync fs1 ''/data/a.txt'' = Inr ''https://x''
       \<and> replace_text (example_config False) example_runtime fs1 replace_http
           = (Inr (Str ''Text replaced in /data/a.txt''), fs2)
       \<and> readFileSync fs2 ''/data/a.txt'' = Inr ''httpss://x'')"
proof -
  have h1: "\<not> nullish replace_http" by (simp add: replace_http_def)
  have h2: "ensureSafePath (example_config False) example_runtime (own replace_http ''filename'')
              = Inr ''/data/a.txt''"
    by code_simp
  have h3: "own replace_http ''search'' = Str ''http''"
    and h4: "own replace_http ''replace'' = Str ''https''"
    by (simp_all add: replace_http_def)
  have h5: "readFileSync example_fs ''/data/a.txt'' = Inr ''http://x''"
    by (simp add: readFileSync_def example_fs_def)
  from replace_text_twice [OF h1 h2 h3 h4 h5] h5 show ?thesis by simp
qed


section \<open>Organising files\<close>


























lemma join_nonempty: "xs \<noteq> [] \<Longrightarrow> \<forall>x\<in>set xs. x \<noteq> [] \<Longrightarrow> join d xs \<noteq> []"
  by (induction d xs rule: join.induct) auto

































end
